theory Spec2Isabelle
  imports Main
begin

section \<open>JavaScript strings and values\<close>

text \<open>
  A JavaScript string is a sequence of UTF-16 code units; a code unit is modelled as a
  natural number. String literals of the source are written \<open>js ''...''\<close>.
\<close>

type_synonym jsstring = "nat list"

definition js :: "string \<Rightarrow> jsstring" where
  "js s = map of_char s"

text \<open>
  \<open>String.prototype.trim\<close> removes the ECMAScript WhiteSpace and LineTerminator code
  points from both ends: TAB, LF, VT, FF, CR, SP, NBSP, the Unicode space separators,
  LS, PS and the byte order mark.
\<close>

definition is_ws :: "nat \<Rightarrow> bool" where
  "is_ws c \<longleftrightarrow>
     c = 0x09 \<or> c = 0x0A \<or> c = 0x0B \<or> c = 0x0C \<or> c = 0x0D \<or> c = 0x20 \<or> c = 0xA0 \<or>
     c = 0x1680 \<or> (0x2000 \<le> c \<and> c \<le> 0x200A) \<or> c = 0x2028 \<or> c = 0x2029 \<or>
     c = 0x202F \<or> c = 0x205F \<or> c = 0x3000 \<or> c = 0xFEFF"

definition trim :: "jsstring \<Rightarrow> jsstring" where
  "trim s = rev (dropWhile is_ws (rev (dropWhile is_ws s)))"

text \<open>Decimal rendering of a number inside a template literal.\<close>

fun dec :: "nat \<Rightarrow> jsstring" where
  "dec n = (if n < 10 then [48 + n] else dec (n div 10) @ [48 + n mod 10])"

declare dec.simps [simp del]

text \<open>
  The values that occur in the object literals the client sends: strings, booleans and
  \<open>undefined\<close> (an optional argument that was not passed). An object literal is the list
  of its properties in source order.
\<close>

datatype jsval = JUndefined | JBool bool | JStr jsstring

type_synonym jsobj = "(string \<times> jsval) list"


section \<open>Data model (types/index.ts)\<close>

text \<open>
  Optional fields (\<open>field?: T\<close>) are options. Where two interfaces share a field name
  the later record's fields carry a short prefix; \<open>id\<close>, \<open>type\<close>, \<open>text\<close> and \<open>size\<close> are
  renamed because Isabelle uses these names. Dates are milliseconds since the epoch.
\<close>

datatype source_type = web | document

record Source =
  title :: jsstring
  url :: jsstring
  domain :: jsstring
  type_s :: source_type
  snippet :: "jsstring option"

record ChatMessage =
  id_m :: jsstring
  message :: jsstring
  response :: "jsstring option"
  sources :: "Source list option"
  timestamp :: nat
  isUser :: bool
  isLoading :: "bool option"

record ChatResponse =
  r_response :: jsstring
  r_sources :: "Source list"
  r_session_id :: jsstring
  r_timestamp :: jsstring

record WebSocketMessage =
  w_type :: jsstring
  w_message :: "jsstring option"
  w_data :: "ChatResponse option"

section \<open>Transport services (services/api.ts)\<close>

subsection \<open>chatService\<close>

text \<open>
  \<open>chatService.sendMessage\<close> posts one object literal to \<open>/api/chat\<close> and returns the
  response body. The request is the pair of the URL and the body handed to \<open>api.post\<close>;
  the HTTP exchange itself is the environment's: it resolves with a \<open>ChatResponse\<close> or
  rejects.
\<close>

type_synonym http_request = "string \<times> jsobj"

datatype 'a promise = Resolved 'a | Rejected

definition opt_str :: "jsstring option \<Rightarrow> jsval" where
  "opt_str v = (case v of None \<Rightarrow> JUndefined | Some s \<Rightarrow> JStr s)"

definition chatService_request ::
  "jsstring \<Rightarrow> jsstring option \<Rightarrow> bool \<Rightarrow> bool \<Rightarrow> http_request" where
  "chatService_request msg sessionId includeWebSearch includeLocalSearch =
     (''/api/chat'',
      [(''message'', JStr msg),
       (''session_id'', opt_str sessionId),
       (''include_web_search'', JBool includeWebSearch),
       (''include_local_search'', JBool includeLocalSearch)])"

definition chatService_sendMessage ::
  "(http_request \<Rightarrow> ChatResponse promise) \<Rightarrow>
   jsstring \<Rightarrow> jsstring option \<Rightarrow> bool \<Rightarrow> bool \<Rightarrow> ChatResponse promise" where
  "chatService_sendMessage post msg sessionId includeWebSearch includeLocalSearch =
     (case post (chatService_request msg sessionId includeWebSearch includeLocalSearch) of
        Resolved data \<Rightarrow> Resolved data
      | Rejected \<Rightarrow> Rejected)"

subsection \<open>WebSocketService\<close>

datatype ready_state = CONNECTING | OPEN | CLOSING | CLOSED

text \<open>
  \<open>ws\<close> is the current socket, seen through its \<open>readyState\<close>; \<open>timers\<close> counts the
  reconnect callbacks that \<open>setTimeout\<close> holds and has not yet run.
\<close>

record WebSocketService =
  ws :: "ready_state option"
  reconnectAttempts :: nat
  timers :: nat



text \<open>What the client does to the outside: sockets, timers and HTTP requests.\<close>

datatype effect = NewWebSocket | SetTimeout nat | WsSend jsobj | WsClose | HttpPost http_request

definition isConnected :: "WebSocketService \<Rightarrow> bool" where
  "isConnected svc \<longleftrightarrow> ws svc \<noteq> None \<and> ws svc = Some OPEN"



definition ws_sendMessage :: "WebSocketService \<Rightarrow> jsobj \<Rightarrow> effect list" where
  "ws_sendMessage svc obj = (if ws svc \<noteq> None \<and> ws svc = Some OPEN then [WsSend obj] else [])"

definition disconnect :: "WebSocketService \<Rightarrow> WebSocketService \<times> effect list" where
  "disconnect svc = (if ws svc \<noteq> None then (svc\<lparr>ws := None\<rparr>, [WsClose]) else (svc, []))"





section \<open>The chat hook (hooks/useChat)\<close>

record chat_state =
  messages :: "ChatMessage list"
  c_isLoading :: bool
  sessionId :: jsstring
  wsService :: "WebSocketService option"

text \<open>
  The readings of \<open>Date.now()\<close>, \<open>new Date()\<close> and \<open>Math.random()\<close> that one call of
  \<open>sendMessage\<close> makes, in the order the source makes them.
\<close>

record tick =
  now1 :: nat
  rnd1 :: jsstring
  date1 :: nat
  now2 :: nat
  rnd2 :: jsstring
  date2 :: nat

definition userMessage :: "tick \<Rightarrow> jsstring \<Rightarrow> ChatMessage" where
  "userMessage tk msg =
     \<lparr>id_m = js ''msg_'' @ dec (now1 tk) @ js ''_'' @ rnd1 tk,
      message = trim msg,
      response = None,
      sources = None,
      timestamp = date1 tk,
      isUser = True,
      isLoading = None\<rparr>"

definition aiMessage :: "tick \<Rightarrow> ChatMessage" where
  "aiMessage tk =
     \<lparr>id_m = js ''ai_'' @ dec (now2 tk) @ js ''_'' @ rnd2 tk,
      message = [],
      response = None,
      sources = None,
      timestamp = date2 tk,
      isUser = False,
      isLoading = Some True\<rparr>"

definition chat_payload :: "jsstring \<Rightarrow> bool \<Rightarrow> bool \<Rightarrow> jsobj" where
  "chat_payload msg includeWebSearch includeLocalSearch =
     [(''type'', JStr (js ''chat'')),
      (''message'', JStr (trim msg)),
      (''include_web_search'', JBool includeWebSearch),
      (''include_local_search'', JBool includeLocalSearch)]"

text \<open>
  The three state updaters of the hook, each as the source writes it: copy the list,
  look at the element at index \<open>length - 1\<close>, and when it exists and is loading, overwrite
  its three fields.
\<close>

definition ws_response_update :: "ChatResponse \<Rightarrow> ChatMessage list \<Rightarrow> ChatMessage list" where
  "ws_response_update resp prev =
     (let updated = prev in
      if updated \<noteq> [] \<and> isLoading (updated ! (length updated - 1)) = Some True
      then updated[length updated - 1 :=
             (updated ! (length updated - 1))
               \<lparr>isLoading := Some False,
                response := Some (r_response resp),
                sources := Some (r_sources resp)\<rparr>]
      else updated)"

definition rest_response_update :: "ChatResponse \<Rightarrow> ChatMessage list \<Rightarrow> ChatMessage list" where
  "rest_response_update resp prev =
     (let updated = prev;
          n = length updated - 1
      in if updated \<noteq> [] \<and> isLoading (updated ! n) = Some True
         then updated[n := (updated ! n)
                \<lparr>isLoading := Some False,
                 response := Some (r_response resp),
                 sources := Some (r_sources resp)\<rparr>]
         else updated)"

definition error_text :: jsstring where
  "error_text =
     js ''Sorry, I encountered an error while processing your request. Please try again.''"

definition catch_update :: "ChatMessage list \<Rightarrow> ChatMessage list" where
  "catch_update prev =
     (let updated = prev;
          n = length updated - 1
      in if updated \<noteq> [] \<and> isLoading (updated ! n) = Some True
         then updated[n := (updated ! n)
                \<lparr>isLoading := Some False,
                 response := Some error_text,
                 sources := Some []\<rparr>]
         else updated)"

text \<open>
  The handler given to \<open>ws.connect\<close>. A message whose type is \<open>response\<close> but that has no
  \<open>data\<close> makes the updater read a property of \<open>undefined\<close> when the last message is
  loading: that TypeError is the result \<open>None\<close>.
\<close>

definition onMessage :: "chat_state \<Rightarrow> WebSocketMessage \<Rightarrow> chat_state option" where
  "onMessage st data =
     (if w_type data = js ''response''
      then (case w_data data of
              Some resp \<Rightarrow>
                Some (st\<lparr>messages := ws_response_update resp (messages st),
                         c_isLoading := False\<rparr>)
            | None \<Rightarrow>
                if messages st \<noteq> [] \<and> isLoading (last (messages st)) = Some True
                then None
                else Some (st\<lparr>c_isLoading := False\<rparr>))
      else Some st)"

definition onError :: "chat_state \<Rightarrow> chat_state" where
  "onError st = st\<lparr>c_isLoading := False\<rparr>"

text \<open>
  \<open>sendMessage\<close> runs in two parts, separated by the \<open>await\<close> of the REST call. The first
  part ends in one of three ways: it returned at once, it sent over the open channel, or
  it issued the REST request and is waiting for it.
\<close>

datatype pending = NoTurn | Streaming | AwaitingRest

definition sendMessage_begin ::
  "tick \<Rightarrow> chat_state \<Rightarrow> jsstring \<Rightarrow> bool \<Rightarrow> bool \<Rightarrow> chat_state \<times> effect list \<times> pending" where
  "sendMessage_begin tk st msg includeWebSearch includeLocalSearch =
     (if trim msg = [] then (st, [], NoTurn)
      else
        let st1 = st\<lparr>messages := messages st @ [userMessage tk msg, aiMessage tk],
                     c_isLoading := True\<rparr>
        in case wsService st of
             Some svc \<Rightarrow>
               if isConnected svc
               then (st1,
                     ws_sendMessage svc (chat_payload msg includeWebSearch includeLocalSearch),
                     Streaming)
               else (st1,
                     [HttpPost (chatService_request (trim msg) (Some (sessionId st))
                        includeWebSearch includeLocalSearch)],
                     AwaitingRest)
           | None \<Rightarrow>
               (st1,
                [HttpPost (chatService_request (trim msg) (Some (sessionId st))
                   includeWebSearch includeLocalSearch)],
                AwaitingRest))"

definition sendMessage_resolved :: "chat_state \<Rightarrow> ChatResponse \<Rightarrow> chat_state" where
  "sendMessage_resolved st resp =
     st\<lparr>messages := rest_response_update resp (messages st), c_isLoading := False\<rparr>"

definition sendMessage_rejected :: "chat_state \<Rightarrow> chat_state" where
  "sendMessage_rejected st =
     st\<lparr>messages := catch_update (messages st), c_isLoading := False\<rparr>"

text \<open>
  The whole call, when nothing else touches the state while the REST request is in
  flight: \<open>post\<close> is the HTTP exchange, which settles the request.
\<close>

definition sendMessage ::
  "tick \<Rightarrow> (http_request \<Rightarrow> ChatResponse promise) \<Rightarrow> chat_state \<Rightarrow> jsstring \<Rightarrow> bool \<Rightarrow> bool \<Rightarrow>
   chat_state \<times> effect list" where
  "sendMessage tk post st msg includeWebSearch includeLocalSearch =
     (case sendMessage_begin tk st msg includeWebSearch includeLocalSearch of
        (st1, fx, AwaitingRest) \<Rightarrow>
          (case chatService_sendMessage post (trim msg) (Some (sessionId st))
                  includeWebSearch includeLocalSearch of
             Resolved resp \<Rightarrow> (sendMessage_resolved st1 resp, fx)
           | Rejected \<Rightarrow> (sendMessage_rejected st1, fx))
      | (st1, fx, _) \<Rightarrow> (st1, fx))"

definition clearMessages :: "chat_state \<Rightarrow> chat_state" where
  "clearMessages st = st\<lparr>messages := []\<rparr>"

section \<open>The chat form (components/ChatInterface)\<close>

record settings =
  includeWebSearch :: bool
  includeLocalSearch :: bool

record ui_state =
  input :: jsstring
  search :: settings
  chat :: chat_state

definition handleSubmit ::
  "tick \<Rightarrow> (http_request \<Rightarrow> ChatResponse promise) \<Rightarrow> ui_state \<Rightarrow> ui_state \<times> effect list" where
  "handleSubmit tk post ui =
     (if trim (input ui) = [] \<or> c_isLoading (chat ui) then (ui, [])
      else
        let msg = trim (input ui);
            ui1 = ui\<lparr>input := []\<rparr>
        in case sendMessage tk post (chat ui1) msg
                  (includeWebSearch (search ui1)) (includeLocalSearch (search ui1)) of
             (st, fx) \<Rightarrow> (ui1\<lparr>chat := st\<rparr>, fx))"

text \<open>
  The synchronous part of \<open>handleSubmit\<close>, up to the \<open>await\<close> inside \<open>sendMessage\<close>: what has
  happened when the handler gives control back while a REST request is in flight.
\<close>

definition handleSubmit_begin :: "tick \<Rightarrow> ui_state \<Rightarrow> ui_state \<times> effect list \<times> pending" where
  "handleSubmit_begin tk ui =
     (if trim (input ui) = [] \<or> c_isLoading (chat ui) then (ui, [], NoTurn)
      else
        let msg = trim (input ui);
            ui1 = ui\<lparr>input := []\<rparr>
        in case sendMessage_begin tk (chat ui1) msg
                  (includeWebSearch (search ui1)) (includeLocalSearch (search ui1)) of
             (st, fx, p) \<Rightarrow> (ui1\<lparr>chat := st\<rparr>, fx, p))"

section \<open>Rendering a message (components/ChatMessage)\<close>

text \<open>
  What the component shows, without the styling: a user bubble, the spinner, or the
  answer text with one \<open>SourceCard\<close> per source. \<open>sources.map((source, index) => ...)\<close> is
  a map over the list paired with the positions from 0.

  The component takes its icons from \<open>@heroicons/react/24/outline\<close>. An import of a name
  that the module does not export binds \<open>undefined\<close>, and React throws when it is asked to
  render an element whose type is \<open>undefined\<close>; with no error boundary in the components,
  the whole render fails. \<open>SourceCard\<close> uses \<open>DocumentTextIcon\<close> and \<open>GlobeAltIcon\<close>, which the
  module exports, and for a source of type \<open>web\<close> also \<open>ExternalLinkIcon\<close>. What that
  import binds is a parameter of the model: \<open>Some\<close> icon, or \<open>None\<close> for \<open>undefined\<close>.
\<close>

datatype icon = DocumentTextIcon | GlobeAltIcon | ExternalLinkIcon

datatype render_error = InvalidElementType

text \<open>
  The \<open>24/outline\<close> entry point exists in version 2 of \<open>@heroicons/react\<close>, which is also
  the version that has the other icons the components import (\<open>Cog6ToothIcon\<close>,
  \<open>DocumentArrowUpIcon\<close>, \<open>PaperAirplaneIcon\<close>). That version exports no \<open>ExternalLinkIcon\<close>
  (the icon is named \<open>ArrowTopRightOnSquareIcon\<close> there), so the import binds \<open>undefined\<close>.
\<close>

definition heroicons_ExternalLinkIcon :: "icon option" where
  "heroicons_ExternalLinkIcon = None"

record SourceCard =
  source :: Source
  index :: nat
  source_icon :: icon

definition getSourceIcon :: "Source \<Rightarrow> icon" where
  "getSourceIcon s = (if type_s s = document then DocumentTextIcon else GlobeAltIcon)"

definition SourceCard_view :: "icon option \<Rightarrow> Source \<Rightarrow> nat \<Rightarrow> render_error + SourceCard" where
  "SourceCard_view ext s i =
     (if type_s s = web
      then (case ext of
              None \<Rightarrow> Inl InvalidElementType
            | Some _ \<Rightarrow> Inr \<lparr>source = s, index = i, source_icon = getSourceIcon s\<rparr>)
      else Inr \<lparr>source = s, index = i, source_icon = getSourceIcon s\<rparr>)"

text \<open>Rendering the children in order; the first one that throws fails the render.\<close>

fun render_all :: "(render_error + 'a) list \<Rightarrow> render_error + 'a list" where
  "render_all [] = Inr []"
| "render_all (x # xs) =
     (case x of
        Inl e \<Rightarrow> Inl e
      | Inr y \<Rightarrow> (case render_all xs of Inl e \<Rightarrow> Inl e | Inr ys \<Rightarrow> Inr (y # ys)))"

datatype bubble =
  UserBubble jsstring
| Thinking
| AnswerBubble jsstring "SourceCard list"

definition ChatMessage_view :: "icon option \<Rightarrow> ChatMessage \<Rightarrow> render_error + bubble" where
  "ChatMessage_view ext m =
     (if isUser m then Inr (UserBubble (message m))
      else if isLoading m = Some True then Inr Thinking
      else
        case (case sources m of
                Some srcs \<Rightarrow>
                  if length srcs > 0
                  then render_all (map (\<lambda>(i, s). SourceCard_view ext s (i + 1)) (enumerate 0 srcs))
                  else Inr []
              | None \<Rightarrow> Inr []) of
          Inl e \<Rightarrow> Inl e
        | Inr cards \<Rightarrow>
            Inr (AnswerBubble
                   (case response m of
                      Some r \<Rightarrow> if r \<noteq> [] then r else js ''No response available''
                    | None \<Rightarrow> js ''No response available'')
                   cards))"

section \<open>The standalone chat page (App.tsx)\<close>

record Message =
  id_a :: nat
  text_a :: jsstring
  a_isUser :: bool
  a_sources :: "Source list option"

record app_state =
  a_messages :: "Message list"
  a_input :: jsstring
  loading :: bool

definition App_request :: "jsstring \<Rightarrow> http_request" where
  "App_request inp =
     (''/api/chat'',
      [(''message'', JStr inp),
       (''include_web_search'', JBool True),
       (''include_local_search'', JBool True)])"

text \<open>\<open>now_u\<close>, \<open>now_r\<close>: the two readings of \<open>Date.now()\<close>, before and after the request.\<close>

definition App_sendMessage ::
  "nat \<Rightarrow> nat \<Rightarrow> (http_request \<Rightarrow> ChatResponse promise) \<Rightarrow> app_state \<Rightarrow> app_state \<times> effect list" where
  "App_sendMessage now_u now_r post st =
     (if trim (a_input st) = [] \<or> loading st then (st, [])
      else
        let inp = a_input st;
            st1 = st\<lparr>a_messages :=
                        a_messages st @
                          [\<lparr>id_a = now_u, text_a = inp, a_isUser = True, a_sources = None\<rparr>],
                     a_input := [],
                     loading := True\<rparr>;
            st2 = (case post (App_request inp) of
                     Resolved resp \<Rightarrow>
                       st1\<lparr>a_messages :=
                             a_messages st1 @
                               [\<lparr>id_a = now_r + 1, text_a = r_response resp, a_isUser = False,
                                 a_sources = Some (r_sources resp)\<rparr>]\<rparr>
                   | Rejected \<Rightarrow>
                       st1\<lparr>a_messages :=
                             a_messages st1 @
                               [\<lparr>id_a = now_r + 1,
                                 text_a = js ''Sorry, I encountered an error. Please try again.'',
                                 a_isUser = False, a_sources = None\<rparr>]\<rparr>)
        in (st2\<lparr>loading := False\<rparr>, [HttpPost (App_request inp)]))"

text \<open>A source link of the page: the label's number, the title, and the target.\<close>

record source_link =
  label :: nat
  link_title :: jsstring
  href :: jsstring

definition App_sources_view :: "Message \<Rightarrow> source_link list" where
  "App_sources_view m =
     (case a_sources m of
        Some srcs \<Rightarrow>
          if length srcs > 0
          then map (\<lambda>(i, s). \<lparr>label = i + 1, link_title = title s, href = url s\<rparr>)
                 (enumerate 0 srcs)
          else []
      | None \<Rightarrow> [])"

section \<open>Uploading documents (components/FileUpload)\<close>

record File =
  name :: jsstring
  size_f :: nat

datatype upload_status = uploading | completed | error

record UploadProgress =
  filename :: jsstring
  progress :: nat
  status :: upload_status
  u_error :: "jsstring option"

text \<open>
  One call of \<open>fileService.uploadFile\<close>, as the environment decides it: the progress
  values the callback receives, then success, or a rejection that carries an \<open>Error\<close>'s
  message or something that is no \<open>Error\<close>.
\<close>

datatype upload_end = Uploaded | FailedWith jsstring | FailedOther

record upload_run =
  reports :: "nat list"
  ending :: upload_end

datatype upload_effect =
  UploadFile File
| ToastError jsstring
| ToastSuccess jsstring
| CompleteAfter nat

definition size_limit :: nat where
  "size_limit = 50 * 1024 * 1024"

definition set_progress :: "jsstring \<Rightarrow> nat \<Rightarrow> UploadProgress list \<Rightarrow> UploadProgress list" where
  "set_progress fname p prev =
     map (\<lambda>upload. if filename upload = fname then upload\<lparr>progress := p\<rparr> else upload) prev"

definition mark_completed :: "jsstring \<Rightarrow> UploadProgress list \<Rightarrow> UploadProgress list" where
  "mark_completed fname prev =
     map (\<lambda>upload. if filename upload = fname
                    then upload\<lparr>status := completed, progress := 100\<rparr> else upload) prev"

definition mark_error :: "jsstring \<Rightarrow> jsstring \<Rightarrow> UploadProgress list \<Rightarrow> UploadProgress list" where
  "mark_error fname msg prev =
     map (\<lambda>upload. if filename upload = fname
                    then upload\<lparr>status := error, u_error := Some msg\<rparr> else upload) prev"

definition too_large_text :: "File \<Rightarrow> jsstring" where
  "too_large_text file = js ''File '' @ name file @ js '' is too large. Maximum size is 50MB.''"

text \<open>
  The loop of \<open>onDrop\<close> over the accepted files. \<open>svc k file\<close> is the run of the \<open>k\<close>-th
  call of the upload service; the state is the progress list, the effects so far and the
  number of calls made.
\<close>

fun onDrop ::
  "(nat \<Rightarrow> File \<Rightarrow> upload_run) \<Rightarrow> File list \<Rightarrow>
   UploadProgress list \<times> upload_effect list \<times> nat \<Rightarrow>
   UploadProgress list \<times> upload_effect list \<times> nat" where
  "onDrop svc [] acc = acc"
| "onDrop svc (file # files) (uploads, fx, k) =
     (if size_f file > size_limit
      then onDrop svc files
             (uploads,
              fx @ [ToastError (too_large_text file)],
              k)
      else
        let uploads1 = uploads @
                         [\<lparr>filename = name file, progress = 0, status = uploading,
                           u_error = None\<rparr>];
            r = svc k file;
            uploads2 = foldl (\<lambda>u p. set_progress (name file) p u) uploads1 (reports r)
        in case ending r of
             Uploaded \<Rightarrow>
               onDrop svc files
                 (mark_completed (name file) uploads2,
                  fx @ [UploadFile file,
                        ToastSuccess (name file @ js '' uploaded successfully!''),
                        CompleteAfter 1500],
                  k + 1)
           | FailedWith msg \<Rightarrow>
               onDrop svc files
                 (mark_error (name file) msg uploads2,
                  fx @ [UploadFile file, ToastError (js ''Failed to upload '' @ name file)],
                  k + 1)
           | FailedOther \<Rightarrow>
               onDrop svc files
                 (mark_error (name file) (js ''Upload failed'') uploads2,
                  fx @ [UploadFile file, ToastError (js ''Failed to upload '' @ name file)],
                  k + 1))"

text \<open>The files handed to the upload service, in the order of the calls.\<close>

definition uploaded_files :: "upload_effect list \<Rightarrow> File list" where
  "uploaded_files fx = concat (map (\<lambda>e. case e of UploadFile f \<Rightarrow> [f] | _ \<Rightarrow> []) fx)"

definition removeUpload :: "jsstring \<Rightarrow> UploadProgress list \<Rightarrow> UploadProgress list" where
  "removeUpload fname prev = filter (\<lambda>upload. filename upload \<noteq> fname) prev"

section \<open>Example inputs\<close>

definition example_tick :: tick where
  "example_tick =
     \<lparr>now1 = 17, rnd1 = js ''k3x9q0zab'', date1 = 17,
      now2 = 18, rnd2 = js ''p7m2c4d1e'', date2 = 18\<rparr>"

definition example_source :: Source where
  "example_source =
     \<lparr>title = js ''Metformin'', url = js ''https://who.int/a'', domain = js ''who.int'',
      type_s = web, snippet = None\<rparr>"

definition example_response :: ChatResponse where
  "example_response =
     \<lparr>r_response = js ''Answer [1]'', r_sources = [example_source],
      r_session_id = js ''session_1_abc'', r_timestamp = js ''2024-01-01T00:00:00''\<rparr>"

definition idle_state :: chat_state where
  "idle_state =
     \<lparr>messages = [], c_isLoading = False, sessionId = js ''session_1_abc'', wsService = None\<rparr>"

definition waiting_state :: chat_state where
  "waiting_state =
     \<lparr>messages = [userMessage example_tick (js ''hi''), aiMessage example_tick],
      c_isLoading = True, sessionId = js ''session_1_abc'', wsService = None\<rparr>"

definition post_fails :: "http_request \<Rightarrow> ChatResponse promise" where
  "post_fails req = Rejected"

definition post_answers :: "http_request \<Rightarrow> ChatResponse promise" where
  "post_answers req = Resolved example_response"

definition connected_service :: WebSocketService where
  "connected_service = \<lparr>ws = Some OPEN, reconnectAttempts = 0, timers = 0\<rparr>"


definition streaming_state :: chat_state where
  "streaming_state =
     \<lparr>messages = [], c_isLoading = False, sessionId = js ''session_1_abc'',
      wsService = Some connected_service\<rparr>"

definition status_message :: WebSocketMessage where
  "status_message = \<lparr>w_type = js ''status'', w_message = Some (js ''searching''), w_data = None\<rparr>"

definition response_message :: WebSocketMessage where
  "response_message = \<lparr>w_type = js ''response'', w_message = None, w_data = Some example_response\<rparr>"


definition later_tick :: tick where
  "later_tick =
     \<lparr>now1 = 25, rnd1 = js ''w8r5t2y6u'', date1 = 25,
      now2 = 26, rnd2 = js ''b4n1v7c3x'', date2 = 26\<rparr>"

definition offline_form :: ui_state where
  "offline_form =
     \<lparr>input = js ''first'',
      search = \<lparr>includeWebSearch = True, includeLocalSearch = True\<rparr>,
      chat = \<lparr>messages = [], c_isLoading = False, sessionId = js ''session_1_abc'',
              wsService = Some \<lparr>ws = Some CLOSED, reconnectAttempts = 1, timers = 1\<rparr>\<rparr>\<rparr>"

definition after_first :: ui_state where
  "after_first = fst (handleSubmit_begin example_tick offline_form)"

definition after_error :: ui_state where
  "after_error = after_first\<lparr>input := js ''second'', chat := onError (chat after_first)\<rparr>"

definition after_second :: ui_state where
  "after_second = fst (handleSubmit_begin later_tick after_error)"

text \<open>The source cards of a rendered message (none for a user bubble or the spinner).\<close>

definition cards_of :: "render_error + bubble \<Rightarrow> SourceCard list" where
  "cards_of v = (case v of Inr (AnswerBubble _ cards) \<Rightarrow> cards | _ \<Rightarrow> [])"

definition second_source :: Source where
  "second_source =
     \<lparr>title = js ''Insulin'', url = js ''https://nih.gov/b'', domain = js ''nih.gov'',
      type_s = document, snippet = Some (js ''dosage'')\<rparr>"

definition document_source :: Source where
  "document_source =
     \<lparr>title = js ''Guideline'', url = js ''doc://7'', domain = js ''local'',
      type_s = document, snippet = None\<rparr>"

definition document_answer :: ChatMessage where
  "document_answer =
     \<lparr>id_m = js ''ai_30_h2j4k6l8m'', message = [], response = Some (js ''Answer [1][2]''),
      sources = Some [document_source, second_source], timestamp = 30, isUser = False,
      isLoading = Some False\<rparr>"

definition answered_message :: ChatMessage where
  "answered_message =
     \<lparr>id_m = js ''ai_18_p7m2c4d1e'', message = [], response = Some (js ''Answer [1][2]''),
      sources = Some [example_source, second_source], timestamp = 18, isUser = False,
      isLoading = Some False\<rparr>"

definition answered_page_message :: Message where
  "answered_page_message =
     \<lparr>id_a = 19, text_a = js ''Answer [1][2]'', a_isUser = False,
      a_sources = Some [example_source, second_source]\<rparr>"

definition small_file :: File where
  "small_file = \<lparr>name = js ''notes.txt'', size_f = 1024\<rparr>"

definition huge_file :: File where
  "huge_file = \<lparr>name = js ''scan.pdf'', size_f = 52428801\<rparr>"

definition edge_file :: File where
  "edge_file = \<lparr>name = js ''atlas.pdf'', size_f = 52428800\<rparr>"

definition upload_succeeds :: "nat \<Rightarrow> File \<Rightarrow> upload_run" where
  "upload_succeeds k file = \<lparr>reports = [50, 100], ending = Uploaded\<rparr>"

section \<open>Strings\<close>

lemma trim_empty_iff: "trim s = [] \<longleftrightarrow> (\<forall>c\<in>set s. is_ws c)"
proof
  assume "trim s = []"
  then have "dropWhile is_ws (rev (dropWhile is_ws s)) = []"
    by (simp add: trim_def)
  then have all: "\<forall>c\<in>set (dropWhile is_ws s). is_ws c"
    by simp
  have "dropWhile is_ws s = []"
  proof (rule ccontr)
    assume ne: "dropWhile is_ws s \<noteq> []"
    then have "\<not> is_ws (hd (dropWhile is_ws s))"
      by (rule hd_dropWhile)
    moreover have "hd (dropWhile is_ws s) \<in> set (dropWhile is_ws s)"
      using ne by simp
    ultimately show False using all by blast
  qed
  then show "\<forall>c\<in>set s. is_ws c"
    by simp
next
  assume "\<forall>c\<in>set s. is_ws c"
  then show "trim s = []"
    by (auto simp: trim_def dest: set_dropWhileD)
qed

lemma trim_example: "trim (js ''hi '') = js ''hi''"
  by (simp add: trim_def js_def is_ws_def)

lemma js_hi_nonempty: "js ''hi'' \<noteq> []"
  by (simp add: js_def)

lemma idle_messages: "messages idle_state = []"
  by (simp add: idle_state_def)


lemma waiting_messages:
  "messages waiting_state = [userMessage example_tick (js ''hi''), aiMessage example_tick]"
  by (simp add: waiting_state_def)

lemma aiMessage_loading: "isLoading (aiMessage tk) = Some True"
  by (simp add: aiMessage_def)

section \<open>Updating the last message\<close>

lemma rest_update_length: "length (rest_response_update resp prev) = length prev"
  by (simp add: rest_response_update_def Let_def)

lemma catch_update_length: "length (catch_update prev) = length prev"
  by (simp add: catch_update_def Let_def)

lemma rest_update_take:
  "n < length prev \<Longrightarrow> take n (rest_response_update resp prev) = take n prev"
  by (simp add: rest_response_update_def Let_def)

lemma catch_update_take:
  "n < length prev \<Longrightarrow> take n (catch_update prev) = take n prev"
  by (simp add: catch_update_def Let_def)

lemma update_last_conv:
  "xs \<noteq> [] \<Longrightarrow> xs[length xs - Suc 0 := y] = butlast xs @ [y]"
  by (induction xs rule: rev_induct) (simp_all add: list_update_append)

lemma nth_last_conv: "xs \<noteq> [] \<Longrightarrow> xs ! (length xs - Suc 0) = last xs"
  by (simp add: last_conv_nth)


lemma rest_update_loading:
  assumes "prev \<noteq> []" and "isLoading (last prev) = Some True"
  shows "rest_response_update resp prev =
           butlast prev @
             [(last prev)\<lparr>isLoading := Some False, response := Some (r_response resp),
                sources := Some (r_sources resp)\<rparr>]"
  using assms by (simp add: rest_response_update_def Let_def nth_last_conv update_last_conv)

lemma ws_rest_update_eq: "ws_response_update resp prev = rest_response_update resp prev"
  by (simp add: ws_response_update_def rest_response_update_def Let_def)

lemma update_payload_only:
  "r_response a = r_response b \<Longrightarrow> r_sources a = r_sources b \<Longrightarrow>
   rest_response_update a prev = rest_response_update b prev"
  by (simp add: rest_response_update_def Let_def)

section \<open>Sending a message\<close>

lemma begin_messages:
  "trim msg \<noteq> [] \<Longrightarrow>
   fst (sendMessage_begin tk st msg w l) =
     st\<lparr>messages := messages st @ [userMessage tk msg, aiMessage tk], c_isLoading := True\<rparr>"
  by (simp add: sendMessage_begin_def Let_def split: option.splits)



lemma sendMessage_cases:
  assumes "trim msg \<noteq> []"
  obtains
    (ws) "fst (sendMessage tk post st msg w l) = fst (sendMessage_begin tk st msg w l)"
  | (ok) resp where "fst (sendMessage tk post st msg w l) =
       sendMessage_resolved (fst (sendMessage_begin tk st msg w l)) resp"
  | (err) "fst (sendMessage tk post st msg w l) =
       sendMessage_rejected (fst (sendMessage_begin tk st msg w l))"
proof (cases "sendMessage_begin tk st msg w l")
  case (fields st1 fx p)
  show ?thesis
  proof (cases p)
    case AwaitingRest
    show ?thesis
    proof (cases "chatService_sendMessage post (trim msg) (Some (sessionId st)) w l")
      case (Resolved resp)
      with fields AwaitingRest have "fst (sendMessage tk post st msg w l) =
         sendMessage_resolved (fst (sendMessage_begin tk st msg w l)) resp"
        by (simp add: sendMessage_def)
      then show ?thesis by (rule ok)
    next
      case Rejected
      with fields AwaitingRest have "fst (sendMessage tk post st msg w l) =
         sendMessage_rejected (fst (sendMessage_begin tk st msg w l))"
        by (simp add: sendMessage_def)
      then show ?thesis by (rule err)
    qed
  next
    case NoTurn
    with fields have "fst (sendMessage tk post st msg w l) = fst (sendMessage_begin tk st msg w l)"
      by (simp add: sendMessage_def)
    then show ?thesis by (rule ws)
  next
    case Streaming
    with fields have "fst (sendMessage tk post st msg w l) = fst (sendMessage_begin tk st msg w l)"
      by (simp add: sendMessage_def)
    then show ?thesis by (rule ws)
  qed
qed

lemma sendMessage_length:
  assumes "trim msg \<noteq> []"
  shows "length (messages (fst (sendMessage tk post st msg w l))) = length (messages st) + 2"
proof -
  note b = begin_messages [OF assms, of tk st w l]
  show ?thesis
    by (cases rule: sendMessage_cases [OF assms, of tk post st w l])
       (simp_all add: b sendMessage_resolved_def sendMessage_rejected_def
          rest_update_length catch_update_length)
qed

lemma sendMessage_prefix:
  assumes "trim msg \<noteq> []"
  shows "take (length (messages st) + 1) (messages (fst (sendMessage tk post st msg w l))) =
       messages st @ [userMessage tk msg]"
proof -
  note b = begin_messages [OF assms, of tk st w l]
  show ?thesis
    by (cases rule: sendMessage_cases [OF assms, of tk post st w l])
       (simp_all add: b sendMessage_resolved_def sendMessage_rejected_def
          rest_update_take catch_update_take)
qed

text \<open>
  C5. A query that is empty or consists only of whitespace starts no turn: \<open>sendMessage\<close>
  returns at once, the state (and so the message list) is unchanged, and neither the
  channel nor the chat endpoint is contacted. The same holds when the text is submitted
  through the form.
\<close>

theorem empty_input_rejected:
  "(\<forall>c\<in>set msg. is_ws c) \<longrightarrow>
     sendMessage_begin tk st msg w l = (st, [], NoTurn) \<and>
     sendMessage tk post st msg w l = (st, []) \<and>
     handleSubmit tk post (ui\<lparr>input := msg\<rparr>) = (ui\<lparr>input := msg\<rparr>, [])"
  by (simp add: trim_empty_iff [symmetric] sendMessage_begin_def sendMessage_def handleSubmit_def)

theorem empty_input_rejected_witness:
  "sendMessage example_tick post_answers idle_state [0x20, 0x09, 0x3000] True True =
     (idle_state, [])"
  using empty_input_rejected
    [where msg = "[0x20, 0x09, 0x3000]" and tk = example_tick and st = idle_state
       and w = True and l = True and post = post_answers]
  by (simp add: is_ws_def)

text \<open>
  C8. A query that is not empty after trimming appends exactly two entries at the end of
  the message list, a user message with the trimmed text and then a loading assistant
  placeholder, and the earlier messages stay as they were. This is the state when the
  synchronous part of \<open>sendMessage\<close> is done; when the whole call is over (the REST
  request settled) the list is still two longer and everything up to and including the
  user message is the same.
\<close>

theorem accepted_query_appends_two:
  "trim msg \<noteq> [] \<longrightarrow>
     messages (fst (sendMessage_begin tk st msg w l)) =
       messages st @ [userMessage tk msg, aiMessage tk] \<and>
     isUser (userMessage tk msg) \<and> message (userMessage tk msg) = trim msg \<and>
     \<not> isUser (aiMessage tk) \<and> isLoading (aiMessage tk) = Some True \<and>
     length (messages (fst (sendMessage tk post st msg w l))) = length (messages st) + 2 \<and>
     take (length (messages st) + 1) (messages (fst (sendMessage tk post st msg w l))) =
       messages st @ [userMessage tk msg]"
proof (intro impI conjI)
  assume ne: "trim msg \<noteq> []"
  show "messages (fst (sendMessage_begin tk st msg w l)) =
       messages st @ [userMessage tk msg, aiMessage tk]"
    using ne by (simp add: begin_messages)
  show "isUser (userMessage tk msg)" "message (userMessage tk msg) = trim msg"
    by (simp_all add: userMessage_def)
  show "\<not> isUser (aiMessage tk)" "isLoading (aiMessage tk) = Some True"
    by (simp_all add: aiMessage_def)
  show "length (messages (fst (sendMessage tk post st msg w l))) = length (messages st) + 2"
    using ne by (rule sendMessage_length)
  show "take (length (messages st) + 1) (messages (fst (sendMessage tk post st msg w l))) =
       messages st @ [userMessage tk msg]"
    using ne by (rule sendMessage_prefix)
qed

theorem accepted_query_appends_two_witness:
  "messages (fst (sendMessage_begin example_tick idle_state (js ''hi '') True True)) =
     [userMessage example_tick (js ''hi ''), aiMessage example_tick] \<and>
   message (userMessage example_tick (js ''hi '')) = js ''hi'' \<and>
   length (messages (fst (sendMessage example_tick post_fails idle_state (js ''hi '') True True)))
     = 2"
  using accepted_query_appends_two
    [where msg = "js ''hi ''" and tk = example_tick and st = idle_state and w = True
       and l = True and post = post_fails]
  by (simp add: trim_example js_hi_nonempty idle_messages)

text \<open>
  C4. The handler of a \<open>response\<close> message on the channel and the continuation of the REST
  call make the same update for the same payload (response text and sources): the
  loading flag is cleared, and when the last message is a loading placeholder it becomes
  not loading and receives that text and those sources.
\<close>

theorem transport_modes_same_update:
  "(r_response a = r_response b \<and> r_sources a = r_sources b \<longrightarrow>
      onMessage st \<lparr>w_type = js ''response'', w_message = m, w_data = Some a\<rparr> =
        Some (sendMessage_resolved st b)) \<and>
   \<not> c_isLoading (sendMessage_resolved st b) \<and>
   (messages st \<noteq> [] \<and> isLoading (last (messages st)) = Some True \<longrightarrow>
      messages (sendMessage_resolved st b) =
        butlast (messages st) @
          [(last (messages st))\<lparr>isLoading := Some False, response := Some (r_response b),
             sources := Some (r_sources b)\<rparr>])"
proof (intro conjI impI)
  assume "r_response a = r_response b \<and> r_sources a = r_sources b"
  then have "rest_response_update a (messages st) = rest_response_update b (messages st)"
    by (intro update_payload_only) simp_all
  then show "onMessage st \<lparr>w_type = js ''response'', w_message = m, w_data = Some a\<rparr> =
        Some (sendMessage_resolved st b)"
    by (simp add: onMessage_def sendMessage_resolved_def ws_rest_update_eq)
next
  show "\<not> c_isLoading (sendMessage_resolved st b)"
    by (simp add: sendMessage_resolved_def)
next
  assume "messages st \<noteq> [] \<and> isLoading (last (messages st)) = Some True"
  then show "messages (sendMessage_resolved st b) =
        butlast (messages st) @
          [(last (messages st))\<lparr>isLoading := Some False, response := Some (r_response b),
             sources := Some (r_sources b)\<rparr>]"
    by (simp add: sendMessage_resolved_def rest_update_loading)
qed

theorem transport_modes_same_update_witness:
  "onMessage waiting_state
     \<lparr>w_type = js ''response'', w_message = None, w_data = Some example_response\<rparr> =
     Some (sendMessage_resolved waiting_state example_response) \<and>
   messages (sendMessage_resolved waiting_state example_response) =
     [userMessage example_tick (js ''hi''),
      (aiMessage example_tick)
        \<lparr>isLoading := Some False, response := Some (r_response example_response),
           sources := Some (r_sources example_response)\<rparr>]"
  using transport_modes_same_update
    [where a = example_response and b = example_response and st = waiting_state
       and m = None]
  by (simp add: waiting_messages aiMessage_loading)



section \<open>Reconnecting the channel\<close>









section \<open>The channel protocol\<close>

lemma sendMessage_effects:
  "snd (sendMessage tk post st msg w l) = fst (snd (sendMessage_begin tk st msg w l))"
proof (cases "sendMessage_begin tk st msg w l")
  case (fields st1 fx p)
  then show ?thesis
    by (cases p) (simp_all add: sendMessage_def split: promise.splits)
qed

lemma begin_effects_ws:
  assumes "WsSend obj \<in> set (fst (snd (sendMessage_begin tk st msg w l)))"
  shows "obj = chat_payload msg w l"
  using assms
  by (auto simp: sendMessage_begin_def Let_def ws_sendMessage_def
      split: if_splits option.splits)

lemma begin_streaming:
  assumes "trim msg \<noteq> []" and "wsService st = Some svc" and "isConnected svc"
  shows "fst (snd (sendMessage_begin tk st msg w l)) = [WsSend (chat_payload msg w l)]"
  using assms
  by (simp add: sendMessage_begin_def Let_def ws_sendMessage_def isConnected_def)

lemma onMessage_other: "w_type d \<noteq> js ''response'' \<Longrightarrow> onMessage st d = Some st"
  by (simp add: onMessage_def)

lemma onMessage_response:
  "w_type d = js ''response'' \<Longrightarrow> w_data d = Some resp \<Longrightarrow>
   onMessage st d =
     Some (st\<lparr>messages := ws_response_update resp (messages st), c_isLoading := False\<rparr>)"
  by (simp add: onMessage_def)

lemma js_status_response: "js ''status'' \<noteq> js ''response''"
  by (simp add: js_def)

text \<open>
  C3. Every object that \<open>sendMessage\<close> sends over the channel has exactly the shape
  \<open>{type: "chat", message, include_web_search, include_local_search}\<close>, and it sends one
  such object whenever the channel is open and the text is not blank. An incoming
  message changes the conversation exactly when its type is \<open>response\<close>: any other type
  leaves the state as it is, and a \<open>response\<close> applies the update with the payload of
  its \<open>data\<close> field, which completes the loading placeholder at the end of the list.
\<close>

theorem channel_protocol:
  "(WsSend obj \<in> set (snd (sendMessage tk post st msg w l)) \<longrightarrow>
      obj = [(''type'', JStr (js ''chat'')), (''message'', JStr (trim msg)),
             (''include_web_search'', JBool w), (''include_local_search'', JBool l)]) \<and>
   (trim msg \<noteq> [] \<and> wsService st = Some svc \<and> isConnected svc \<longrightarrow>
      snd (sendMessage tk post st msg w l) =
        [WsSend [(''type'', JStr (js ''chat'')), (''message'', JStr (trim msg)),
                 (''include_web_search'', JBool w), (''include_local_search'', JBool l)]]) \<and>
   (w_type d \<noteq> js ''response'' \<longrightarrow> onMessage st d = Some st) \<and>
   (w_type d = js ''response'' \<and> w_data d = Some resp \<longrightarrow>
      onMessage st d =
        Some (st\<lparr>messages := ws_response_update resp (messages st), c_isLoading := False\<rparr>)) \<and>
   (w_type d = js ''response'' \<and> w_data d = Some resp \<and>
    messages st \<noteq> [] \<and> isLoading (last (messages st)) = Some True \<longrightarrow>
      onMessage st d =
        Some (st\<lparr>messages :=
                   butlast (messages st) @
                     [(last (messages st))
                        \<lparr>isLoading := Some False, response := Some (r_response resp),
                           sources := Some (r_sources resp)\<rparr>],
                 c_isLoading := False\<rparr>))"
proof (intro conjI impI)
  assume "WsSend obj \<in> set (snd (sendMessage tk post st msg w l))"
  then have "obj = chat_payload msg w l"
    by (simp add: sendMessage_effects begin_effects_ws)
  then show "obj = [(''type'', JStr (js ''chat'')), (''message'', JStr (trim msg)),
             (''include_web_search'', JBool w), (''include_local_search'', JBool l)]"
    by (simp add: chat_payload_def)
next
  assume "trim msg \<noteq> [] \<and> wsService st = Some svc \<and> isConnected svc"
  then have "snd (sendMessage tk post st msg w l) = [WsSend (chat_payload msg w l)]"
    by (simp add: sendMessage_effects begin_streaming)
  then show "snd (sendMessage tk post st msg w l) =
        [WsSend [(''type'', JStr (js ''chat'')), (''message'', JStr (trim msg)),
                 (''include_web_search'', JBool w), (''include_local_search'', JBool l)]]"
    by (simp add: chat_payload_def)
next
  assume "w_type d \<noteq> js ''response''"
  then show "onMessage st d = Some st" by (rule onMessage_other)
next
  assume "w_type d = js ''response'' \<and> w_data d = Some resp"
  then show "onMessage st d =
        Some (st\<lparr>messages := ws_response_update resp (messages st), c_isLoading := False\<rparr>)"
    by (simp add: onMessage_response)
next
  assume "w_type d = js ''response'' \<and> w_data d = Some resp \<and>
    messages st \<noteq> [] \<and> isLoading (last (messages st)) = Some True"
  then show "onMessage st d =
        Some (st\<lparr>messages :=
                   butlast (messages st) @
                     [(last (messages st))
                        \<lparr>isLoading := Some False, response := Some (r_response resp),
                           sources := Some (r_sources resp)\<rparr>],
                 c_isLoading := False\<rparr>)"
    by (simp add: onMessage_response ws_rest_update_eq rest_update_loading)
qed

theorem channel_protocol_witness:
  "snd (sendMessage example_tick post_fails streaming_state (js ''hi '') True False) =
     [WsSend [(''type'', JStr (js ''chat'')), (''message'', JStr (js ''hi'')),
              (''include_web_search'', JBool True), (''include_local_search'', JBool False)]] \<and>
   onMessage waiting_state status_message = Some waiting_state \<and>
   onMessage waiting_state response_message =
     Some (waiting_state
        \<lparr>messages :=
           [userMessage example_tick (js ''hi''),
            (aiMessage example_tick)
              \<lparr>isLoading := Some False, response := Some (r_response example_response),
                 sources := Some (r_sources example_response)\<rparr>],
         c_isLoading := False\<rparr>)"
proof -
  let ?obj = "[(''type'', JStr (js ''chat'')), (''message'', JStr (js ''hi'')),
              (''include_web_search'', JBool True), (''include_local_search'', JBool False)]"
  note sending = channel_protocol
      [where tk = example_tick and post = post_fails and st = streaming_state
         and msg = "js ''hi ''" and w = True and l = False and svc = connected_service
         and d = status_message and resp = example_response and obj = ?obj]
  note receiving = channel_protocol
      [where tk = example_tick and post = post_fails and st = waiting_state
         and msg = "js ''hi ''" and w = True and l = False and svc = connected_service
         and d = response_message and resp = example_response and obj = ?obj]
  note other = channel_protocol
      [where tk = example_tick and post = post_fails and st = waiting_state
         and msg = "js ''hi ''" and w = True and l = False and svc = connected_service
         and d = status_message and resp = example_response and obj = ?obj]
  have 1: "snd (sendMessage example_tick post_fails streaming_state (js ''hi '') True False) =
     [WsSend ?obj]"
    using sending
    by (simp add: trim_example js_hi_nonempty streaming_state_def connected_service_def
        isConnected_def)
  have 2: "onMessage waiting_state status_message = Some waiting_state"
    using other by (simp add: status_message_def js_status_response)
  have 3: "onMessage waiting_state response_message =
     Some (waiting_state
        \<lparr>messages :=
           [userMessage example_tick (js ''hi''),
            (aiMessage example_tick)
              \<lparr>isLoading := Some False, response := Some (r_response example_response),
                 sources := Some (r_sources example_response)\<rparr>],
         c_isLoading := False\<rparr>)"
    using receiving [THEN conjunct2, THEN conjunct2, THEN conjunct2, THEN conjunct2]
    by (simp add: response_message_def waiting_messages aiMessage_loading)
  from 1 2 3 show ?thesis by simp
qed

section \<open>The upload size limit\<close>

lemma filename_set_progress: "map filename (set_progress n p u) = map filename u"
  by (simp add: set_progress_def)

lemma filename_mark_completed: "map filename (mark_completed n u) = map filename u"
  by (simp add: mark_completed_def)

lemma filename_mark_error: "map filename (mark_error n e u) = map filename u"
  by (simp add: mark_error_def)

lemma filename_reports:
  "map filename (foldl (\<lambda>u p. set_progress n p u) u ps) = map filename u"
  by (induction ps arbitrary: u) (simp_all add: filename_set_progress)

lemma uploaded_files_append:
  "uploaded_files (fx1 @ fx2) = uploaded_files fx1 @ uploaded_files fx2"
  by (simp add: uploaded_files_def)

lemma uploaded_files_mem: "UploadFile f \<in> set fx \<longleftrightarrow> f \<in> set (uploaded_files fx)"
  by (induction fx) (auto simp: uploaded_files_def split: upload_effect.splits)

lemma onDrop_filenames:
  "map filename (fst (onDrop svc files (ups, fx, k))) =
     map filename ups @ map name (filter (\<lambda>f. size_f f \<le> size_limit) files)"
proof (induction files arbitrary: ups fx k)
  case Nil
  then show ?case by simp
next
  case (Cons fl files)
  show ?case
  proof (cases "size_f fl > size_limit")
    case True
    then show ?thesis by (simp add: Cons.IH)
  next
    case False
    then show ?thesis
      by (cases "ending (svc k fl)")
         (simp_all add: Let_def Cons.IH filename_mark_completed filename_mark_error
            filename_reports)
  qed
qed

lemma onDrop_uploaded:
  "uploaded_files (fst (snd (onDrop svc files (ups, fx, k)))) =
     uploaded_files fx @ filter (\<lambda>f. size_f f \<le> size_limit) files"
proof (induction files arbitrary: ups fx k)
  case Nil
  then show ?case by simp
next
  case (Cons fl files)
  show ?case
  proof (cases "size_f fl > size_limit")
    case True
    then show ?thesis by (simp add: Cons.IH uploaded_files_append) (simp add: uploaded_files_def)
  next
    case False
    then show ?thesis
      by (cases "ending (svc k fl)")
         (simp_all add: Let_def Cons.IH uploaded_files_append, simp_all add: uploaded_files_def)
  qed
qed

lemma onDrop_keeps_effects:
  "set fx \<subseteq> set (fst (snd (onDrop svc files (ups, fx, k))))"
proof (induction files arbitrary: ups fx k)
  case Nil
  then show ?case by simp
next
  case (Cons fl files)
  show ?case
  proof (cases "size_f fl > size_limit")
    case True
    have "set fx \<subseteq> set (fx @ [ToastError (too_large_text fl)])" by auto
    also have "\<dots> \<subseteq> set (fst (snd (onDrop svc files
        (ups, fx @ [ToastError (too_large_text fl)], k))))"
      by (rule Cons.IH)
    finally show ?thesis using True by simp
  next
    case False
    show ?thesis
    proof (cases "ending (svc k fl)")
      case Uploaded
      from Cons.IH [of "fx @ [UploadFile fl,
          ToastSuccess (name fl @ js '' uploaded successfully!''), CompleteAfter 1500]"]
      show ?thesis using False Uploaded by (simp add: Let_def)
    next
      case (FailedWith msg)
      from Cons.IH [of "fx @ [UploadFile fl, ToastError (js ''Failed to upload '' @ name fl)]"]
      show ?thesis using False FailedWith by (simp add: Let_def)
    next
      case FailedOther
      from Cons.IH [of "fx @ [UploadFile fl, ToastError (js ''Failed to upload '' @ name fl)]"]
      show ?thesis using False FailedOther by (simp add: Let_def)
    qed
  qed
qed

lemma onDrop_reports_oversized:
  "file \<in> set files \<Longrightarrow> size_f file > size_limit \<Longrightarrow>
   ToastError (too_large_text file) \<in> set (fst (snd (onDrop svc files (ups, fx, k))))"
proof (induction files arbitrary: ups fx k)
  case Nil
  then show ?case by simp
next
  case (Cons f files)
  show ?case
  proof (cases "f = file")
    case True
    have "ToastError (too_large_text file) \<in> set (fx @ [ToastError (too_large_text file)])"
      by simp
    then have "ToastError (too_large_text file) \<in>
        set (fst (snd (onDrop svc files (ups, fx @ [ToastError (too_large_text file)], k))))"
      using onDrop_keeps_effects by blast
    then show ?thesis using True Cons.prems by simp
  next
    case False
    with Cons.prems have mem: "file \<in> set files" by simp
    note ih = Cons.IH [OF mem Cons.prems(2)]
    show ?thesis
    proof (cases "size_f f > size_limit")
      case True
      then show ?thesis by (simp add: ih)
    next
      case False
      then show ?thesis
        by (cases "ending (svc k f)") (simp_all add: Let_def ih)
    qed
  qed
qed

text \<open>
  C10. A dropped file larger than 50 * 1024 * 1024 bytes is never handed to the upload
  service and gets no entry in the progress list; the handler reports the size error and
  goes on with the remaining files. The upload calls of one drop are exactly the files
  within the limit, in order, and the entries added to the progress list are exactly
  theirs.
\<close>

theorem oversized_file_not_uploaded:
  "uploaded_files (fst (snd (onDrop svc files (uploads, [], 0)))) =
     filter (\<lambda>f. size_f f \<le> size_limit) files \<and>
   map filename (fst (onDrop svc files (uploads, [], 0))) =
     map filename uploads @ map name (filter (\<lambda>f. size_f f \<le> size_limit) files) \<and>
   (big \<in> set files \<and> size_f big > 50 * 1024 * 1024 \<longrightarrow>
      UploadFile big \<notin> set (fst (snd (onDrop svc files (uploads, [], 0)))) \<and>
      ToastError (too_large_text big) \<in> set (fst (snd (onDrop svc files (uploads, [], 0)))))"
proof (intro conjI impI)
  show u: "uploaded_files (fst (snd (onDrop svc files (uploads, [], 0)))) =
     filter (\<lambda>f. size_f f \<le> size_limit) files"
    by (simp add: onDrop_uploaded) (simp add: uploaded_files_def)
  show "map filename (fst (onDrop svc files (uploads, [], 0))) =
     map filename uploads @ map name (filter (\<lambda>f. size_f f \<le> size_limit) files)"
    by (rule onDrop_filenames)
  assume h: "big \<in> set files \<and> size_f big > 50 * 1024 * 1024"
  then have big: "size_f big > size_limit" by (simp add: size_limit_def)
  then show "UploadFile big \<notin> set (fst (snd (onDrop svc files (uploads, [], 0))))"
    by (simp add: uploaded_files_mem u)
  from h big
  show "ToastError (too_large_text big) \<in> set (fst (snd (onDrop svc files (uploads, [], 0))))"
    by (simp add: onDrop_reports_oversized)
qed

theorem oversized_file_not_uploaded_witness:
  "uploaded_files (fst (snd (onDrop upload_succeeds [huge_file, small_file, edge_file] ([], [], 0))))
     = [small_file, edge_file] \<and>
   map filename (fst (onDrop upload_succeeds [huge_file, small_file, edge_file] ([], [], 0))) =
     [js ''notes.txt'', js ''atlas.pdf''] \<and>
   UploadFile huge_file \<notin>
     set (fst (snd (onDrop upload_succeeds [huge_file, small_file, edge_file] ([], [], 0)))) \<and>
   ToastError (too_large_text huge_file) \<in>
     set (fst (snd (onDrop upload_succeeds [huge_file, small_file, edge_file] ([], [], 0))))"
  using oversized_file_not_uploaded
    [where svc = upload_succeeds and files = "[huge_file, small_file, edge_file]"
       and uploads = "[]" and big = huge_file]
  by (simp add: huge_file_def small_file_def edge_file_def size_limit_def)

section \<open>One turn at a time\<close>

text \<open>
  While the loading flag is set, the form and the standalone page reject a submission:
  the state is unchanged and nothing is sent.
\<close>

lemma loading_flag_guard:
  "(c_isLoading (chat ui) \<longrightarrow> handleSubmit tk post ui = (ui, [])) \<and>
   (c_isLoading (chat ui) \<longrightarrow> handleSubmit_begin tk ui = (ui, [], NoTurn)) \<and>
   (loading st \<longrightarrow> App_sendMessage now_u now_r post st = (st, []))"
  by (simp add: handleSubmit_def handleSubmit_begin_def App_sendMessage_def)

lemma trim_first: "trim (js ''first'') = js ''first''"
  by (simp add: trim_def js_def is_ws_def)

lemma trim_second: "trim (js ''second'') = js ''second''"
  by (simp add: trim_def js_def is_ws_def)

lemma js_first_nonempty: "js ''first'' \<noteq> []"
  by (simp add: js_def)

lemma js_second_nonempty: "js ''second'' \<noteq> []"
  by (simp add: js_def)

lemma first_submit:
  "handleSubmit_begin example_tick offline_form =
     (offline_form
        \<lparr>input := [],
         chat := (chat offline_form)
           \<lparr>messages := [userMessage example_tick (js ''first''), aiMessage example_tick],
            c_isLoading := True\<rparr>\<rparr>,
      [HttpPost (chatService_request (js ''first'') (Some (js ''session_1_abc'')) True True)],
      AwaitingRest)"
  by (simp add: handleSubmit_begin_def sendMessage_begin_def offline_form_def trim_first
      js_first_nonempty isConnected_def Let_def)

lemma after_first_chat:
  "chat after_first =
     (chat offline_form)
       \<lparr>messages := [userMessage example_tick (js ''first''), aiMessage example_tick],
        c_isLoading := True\<rparr>"
  by (simp add: after_first_def first_submit)

lemma after_first_search:
  "search after_first = \<lparr>includeWebSearch = True, includeLocalSearch = True\<rparr>"
  by (simp add: after_first_def first_submit) (simp add: offline_form_def)

lemma second_submit:
  "handleSubmit_begin later_tick after_error =
     (after_error
        \<lparr>input := [],
         chat := (chat offline_form)
           \<lparr>messages := [userMessage example_tick (js ''first''), aiMessage example_tick,
                          userMessage later_tick (js ''second''), aiMessage later_tick],
            c_isLoading := True\<rparr>\<rparr>,
      [HttpPost (chatService_request (js ''second'') (Some (js ''session_1_abc'')) True True)],
      AwaitingRest)"
  by (simp add: handleSubmit_begin_def sendMessage_begin_def after_error_def after_first_chat
      after_first_search onError_def offline_form_def trim_second js_second_nonempty
      isConnected_def Let_def)

lemma after_second_messages:
  "messages (chat after_second) =
     [userMessage example_tick (js ''first''), aiMessage example_tick,
      userMessage later_tick (js ''second''), aiMessage later_tick]"
  by (simp add: after_second_def second_submit)

text \<open>
  C1 does not hold of the hook: the loading flag does not stay set while a submitted
  query is pending, because the socket's error handler clears it and leaves the
  placeholder loading. With the channel down, the first question goes out over REST and
  is pending; a failed reconnect reports an error, which clears the flag; the second
  question is then accepted. A second request goes out, the list holds two loading
  placeholders, and when the first answer arrives it lands on the placeholder of the
  second question while the first stays loading.
\<close>

theorem second_turn_after_socket_error:
  "snd (handleSubmit_begin example_tick offline_form) =
     ([HttpPost (chatService_request (js ''first'') (Some (js ''session_1_abc'')) True True)],
      AwaitingRest) \<and>
   c_isLoading (chat after_first) \<and>
   map isLoading (messages (chat after_first)) = [None, Some True] \<and>
   \<not> c_isLoading (chat after_error) \<and>
   map isLoading (messages (chat after_error)) = [None, Some True] \<and>
   snd (handleSubmit_begin later_tick after_error) =
     ([HttpPost (chatService_request (js ''second'') (Some (js ''session_1_abc'')) True True)],
      AwaitingRest) \<and>
   map message (messages (chat after_second)) = [js ''first'', [], js ''second'', []] \<and>
   map isLoading (messages (chat after_second)) = [None, Some True, None, Some True] \<and>
   map isLoading (messages (sendMessage_resolved (chat after_second) example_response)) =
     [None, Some True, None, Some False] \<and>
   map response (messages (sendMessage_resolved (chat after_second) example_response)) =
     [None, None, None, Some (r_response example_response)]"
proof (intro conjI)
  show "snd (handleSubmit_begin example_tick offline_form) =
     ([HttpPost (chatService_request (js ''first'') (Some (js ''session_1_abc'')) True True)],
      AwaitingRest)"
    by (simp add: first_submit)
  show "c_isLoading (chat after_first)"
    by (simp add: after_first_chat)
  show "map isLoading (messages (chat after_first)) = [None, Some True]"
    by (simp add: after_first_chat userMessage_def aiMessage_def)
  show "\<not> c_isLoading (chat after_error)"
    by (simp add: after_error_def onError_def)
  show "map isLoading (messages (chat after_error)) = [None, Some True]"
    by (simp add: after_error_def onError_def after_first_chat userMessage_def aiMessage_def)
  show "snd (handleSubmit_begin later_tick after_error) =
     ([HttpPost (chatService_request (js ''second'') (Some (js ''session_1_abc'')) True True)],
      AwaitingRest)"
    by (simp add: second_submit)
  show "map message (messages (chat after_second)) = [js ''first'', [], js ''second'', []]"
    by (simp add: after_second_messages userMessage_def aiMessage_def trim_first trim_second)
  show "map isLoading (messages (chat after_second)) = [None, Some True, None, Some True]"
    by (simp add: after_second_messages userMessage_def aiMessage_def)
  have r: "messages (sendMessage_resolved (chat after_second) example_response) =
     [userMessage example_tick (js ''first''), aiMessage example_tick,
      userMessage later_tick (js ''second''),
      (aiMessage later_tick)
        \<lparr>isLoading := Some False, response := Some (r_response example_response),
           sources := Some (r_sources example_response)\<rparr>]"
    by (simp add: sendMessage_resolved_def after_second_messages rest_response_update_def
        aiMessage_loading)
  show "map isLoading (messages (sendMessage_resolved (chat after_second) example_response)) =
     [None, Some True, None, Some False]"
    by (simp add: r userMessage_def aiMessage_def)
  show "map response (messages (sendMessage_resolved (chat after_second) example_response)) =
     [None, None, None, Some (r_response example_response)]"
    by (simp add: r userMessage_def aiMessage_def)
qed

section \<open>The chat endpoint\<close>









section \<open>Rendering the sources\<close>

lemma render_all_Inr: "render_all (map Inr ys) = Inr ys"
  by (induction ys) simp_all

lemma render_all_Inl:
  "Inl e \<in> set xs \<Longrightarrow> render_all xs = Inl InvalidElementType"
proof (induction xs)
  case Nil
  then show ?case by simp
next
  case (Cons x xs)
  show ?case
  proof (cases x)
    case (Inl e')
    then show ?thesis by (cases e') simp
  next
    case (Inr y)
    with Cons.prems have "Inl e \<in> set xs" by auto
    then have "render_all xs = Inl InvalidElementType" by (rule Cons.IH)
    with Inr show ?thesis by simp
  qed
qed

lemma SourceCard_view_ok:
  "ext \<noteq> None \<or> type_s s \<noteq> web \<Longrightarrow>
   SourceCard_view ext s i = Inr \<lparr>source = s, index = i, source_icon = getSourceIcon s\<rparr>"
  by (auto simp: SourceCard_view_def split: option.splits)

lemma SourceCard_view_web:
  "type_s s = web \<Longrightarrow> SourceCard_view None s i = Inl InvalidElementType"
  by (simp add: SourceCard_view_def)

lemma cards_ok:
  assumes "ext \<noteq> None \<or> (\<forall>s\<in>set srcs. type_s s \<noteq> web)"
  shows "map (\<lambda>(i, s). SourceCard_view ext s (i + 1)) (enumerate n srcs) =
         map Inr (map (\<lambda>(i, s). \<lparr>source = s, index = i + 1, source_icon = getSourceIcon s\<rparr>)
                    (enumerate n srcs))"
  using assms
proof (induction srcs arbitrary: n)
  case Nil
  then show ?case by simp
next
  case (Cons s srcs)
  from Cons.prems have "ext \<noteq> None \<or> type_s s \<noteq> web" by auto
  then have 1: "SourceCard_view ext s (n + 1) =
      Inr \<lparr>source = s, index = n + 1, source_icon = getSourceIcon s\<rparr>"
    by (rule SourceCard_view_ok)
  from Cons.prems have "ext \<noteq> None \<or> (\<forall>s\<in>set srcs. type_s s \<noteq> web)" by auto
  then have 2: "map (\<lambda>(i, s). SourceCard_view ext s (i + 1)) (enumerate (Suc n) srcs) =
         map Inr (map (\<lambda>(i, s). \<lparr>source = s, index = i + 1, source_icon = getSourceIcon s\<rparr>)
                    (enumerate (Suc n) srcs))"
    by (rule Cons.IH)
  from 1 2 show ?case by simp
qed

lemma view_ok:
  assumes "\<not> isUser m" and "isLoading m \<noteq> Some True" and "sources m = Some srcs"
    and "ext \<noteq> None \<or> (\<forall>s\<in>set srcs. type_s s \<noteq> web)"
  shows "cards_of (ChatMessage_view ext m) =
           map (\<lambda>(i, s). \<lparr>source = s, index = i + 1, source_icon = getSourceIcon s\<rparr>)
             (enumerate 0 srcs)"
proof -
  have c: "render_all (map (\<lambda>(i, s). SourceCard_view ext s (i + 1)) (enumerate 0 srcs)) =
        Inr (map (\<lambda>(i, s). \<lparr>source = s, index = i + 1, source_icon = getSourceIcon s\<rparr>)
               (enumerate 0 srcs))"
    unfolding cards_ok [OF assms(4)] by (rule render_all_Inr)
  show ?thesis
  proof (cases "srcs = []")
    case True
    with assms(1-3) show ?thesis
      by (simp add: ChatMessage_view_def cards_of_def)
  next
    case False
    with assms(1-3) c show ?thesis
      by (simp add: ChatMessage_view_def cards_of_def)
  qed
qed

lemma view_web_fails:
  assumes "\<not> isUser m" and "isLoading m \<noteq> Some True" and "sources m = Some srcs"
    and "s \<in> set srcs" and "type_s s = web"
  shows "ChatMessage_view None m = Inl InvalidElementType"
proof -
  from assms(4) obtain k where k: "k < length srcs" and sk: "srcs ! k = s"
    by (auto simp: in_set_conv_nth)
  let ?xs = "map (\<lambda>(i, s). SourceCard_view None s (i + 1)) (enumerate 0 srcs)"
  have "?xs ! k = Inl InvalidElementType"
    using k sk assms(5) by (simp add: nth_enumerate_eq SourceCard_view_web)
  moreover have "k < length ?xs" using k by simp
  ultimately have "Inl InvalidElementType \<in> set ?xs"
    by (metis nth_mem)
  then have "render_all ?xs = Inl InvalidElementType"
    by (rule render_all_Inl)
  moreover have "srcs \<noteq> []" using assms(4) by auto
  ultimately show ?thesis
    using assms(1-3) by (simp add: ChatMessage_view_def)
qed

lemma cards_index:
  "map index (map (\<lambda>(i, s). \<lparr>source = s, index = i + 1, source_icon = getSourceIcon s\<rparr>)
     (enumerate 0 srcs)) = [1..<Suc (length srcs)]"
  by (rule nth_equalityI) (simp_all add: nth_enumerate_eq del: upt_Suc)

lemma cards_source:
  "map source (map (\<lambda>(i, s). \<lparr>source = s, index = i + 1, source_icon = getSourceIcon s\<rparr>)
     (enumerate 0 srcs)) = srcs"
  by (rule nth_equalityI) (simp_all add: nth_enumerate_eq)

lemma links_label:
  "map label (map (\<lambda>(i, s). \<lparr>label = i + 1, link_title = title s, href = url s\<rparr>)
     (enumerate 0 srcs)) = [1..<Suc (length srcs)]"
  by (rule nth_equalityI) (simp_all add: nth_enumerate_eq del: upt_Suc)

lemma links_nth:
  "i < length srcs \<Longrightarrow>
   map (\<lambda>(i, s). \<lparr>label = i + 1, link_title = title s, href = url s\<rparr>) (enumerate 0 srcs) ! i =
     \<lparr>label = i + 1, link_title = title (srcs ! i), href = url (srcs ! i)\<rparr>"
  by (simp add: nth_enumerate_eq)

lemma app_links:
  assumes "a_sources am = Some srcs"
  shows "App_sources_view am =
           map (\<lambda>(i, s). \<lparr>label = i + 1, link_title = title s, href = url s\<rparr>) (enumerate 0 srcs)"
  using assms by (simp add: App_sources_view_def)

text \<open>
  Where the render succeeds, the labels are the indices 1 to \<open>length srcs\<close> in list order:
  on the standalone page always, in \<open>ChatMessage\<close> when no source is of type \<open>web\<close> or
  when the import of \<open>ExternalLinkIcon\<close> binds a component.
\<close>

lemma labels_where_rendered:
  "(\<not> isUser m \<and> isLoading m \<noteq> Some True \<and> sources m = Some srcs \<and>
    (ext \<noteq> None \<or> (\<forall>s\<in>set srcs. type_s s \<noteq> web)) \<longrightarrow>
      map index (cards_of (ChatMessage_view ext m)) = [1..<Suc (length srcs)] \<and>
      map source (cards_of (ChatMessage_view ext m)) = srcs) \<and>
   (a_sources am = Some srcs \<longrightarrow>
      map label (App_sources_view am) = [1..<Suc (length srcs)] \<and>
      (i < length srcs \<longrightarrow>
         App_sources_view am ! i =
           \<lparr>label = i + 1, link_title = title (srcs ! i), href = url (srcs ! i)\<rparr>))"
proof (intro conjI impI)
  assume h: "\<not> isUser m \<and> isLoading m \<noteq> Some True \<and> sources m = Some srcs \<and>
    (ext \<noteq> None \<or> (\<forall>s\<in>set srcs. type_s s \<noteq> web))"
  then have v: "cards_of (ChatMessage_view ext m) =
           map (\<lambda>(i, s). \<lparr>source = s, index = i + 1, source_icon = getSourceIcon s\<rparr>)
             (enumerate 0 srcs)"
    by (intro view_ok) simp_all
  show "map index (cards_of (ChatMessage_view ext m)) = [1..<Suc (length srcs)]"
    unfolding v by (rule cards_index)
  show "map source (cards_of (ChatMessage_view ext m)) = srcs"
    unfolding v by (rule cards_source)
next
  assume h: "a_sources am = Some srcs"
  then have v: "App_sources_view am =
           map (\<lambda>(i, s). \<lparr>label = i + 1, link_title = title s, href = url s\<rparr>) (enumerate 0 srcs)"
    by (rule app_links)
  show "map label (App_sources_view am) = [1..<Suc (length srcs)]"
    unfolding v by (rule links_label)
  assume "i < length srcs"
  then show "App_sources_view am ! i =
           \<lparr>label = i + 1, link_title = title (srcs ! i), href = url (srcs ! i)\<rparr>"
    unfolding v by (rule links_nth)
qed

text \<open>
  C7 fails in \<open>ChatMessage\<close> for an answer with a source of type \<open>web\<close>: the card of such a
  source renders \<open>ExternalLinkIcon\<close>, which the icon module does not export, so the render
  throws and no source is shown with any index. The same list on the standalone page, and
  an answer with document sources only, are labelled 1, 2.
\<close>

theorem web_source_render_fails:
  "ChatMessage_view heroicons_ExternalLinkIcon answered_message = Inl InvalidElementType \<and>
   cards_of (ChatMessage_view heroicons_ExternalLinkIcon answered_message) = [] \<and>
   map index (cards_of (ChatMessage_view heroicons_ExternalLinkIcon document_answer)) = [1, 2] \<and>
   map label (App_sources_view answered_page_message) = [1, 2]"
proof (intro conjI)
  have w: "type_s example_source = web"
    by (simp add: example_source_def)
  have m: "\<not> isUser answered_message" "isLoading answered_message \<noteq> Some True"
    "sources answered_message = Some [example_source, second_source]"
    by (simp_all add: answered_message_def)
  show f: "ChatMessage_view heroicons_ExternalLinkIcon answered_message = Inl InvalidElementType"
    unfolding heroicons_ExternalLinkIcon_def
    by (rule view_web_fails [OF m, of example_source]) (simp_all add: w)
  show "cards_of (ChatMessage_view heroicons_ExternalLinkIcon answered_message) = []"
    by (simp add: f cards_of_def)
  have d: "\<not> isUser document_answer \<and> isLoading document_answer \<noteq> Some True \<and>
     sources document_answer = Some [document_source, second_source] \<and>
     (heroicons_ExternalLinkIcon \<noteq> None \<or>
      (\<forall>s\<in>set [document_source, second_source]. type_s s \<noteq> web))"
    by (simp add: document_answer_def document_source_def second_source_def)
  from labels_where_rendered [THEN conjunct1, rule_format, OF d]
  show "map index (cards_of (ChatMessage_view heroicons_ExternalLinkIcon document_answer)) = [1, 2]"
    by (simp add: upt_conv_Cons)
  have a: "a_sources answered_page_message = Some [example_source, second_source]"
    by (simp add: answered_page_message_def)
  from labels_where_rendered [THEN conjunct2, rule_format, OF a]
  show "map label (App_sources_view answered_page_message) = [1, 2]"
    by (simp add: upt_conv_Cons)
qed

end
